theory Spec2Isabelle
  imports Main "HOL-Library.Sublist"
begin

section \<open>Strings and names\<close>

text \<open>
  The program under study is \<^verbatim>\<open>egs2/genshin/tts1/local/data_process.py\<close>: a
  dataset-preparation script that walks a corpus directory, deletes unwanted folders,
  renames folders, re-encodes audio files and deletes short clips.

  A Python \<^verbatim>\<open>str\<close> is a sequence of Unicode code points, so a string is a list of
  natural numbers here; \<open>py\<close> writes an ASCII literal.
\<close>

type_synonym pystr = "nat list"

definition py :: "string \<Rightarrow> pystr" where
  "py s = map of_char s"

text \<open>
  \<^verbatim>\<open>str.isspace\<close>, which is also what \<^verbatim>\<open>\s\<close> matches in a \<^verbatim>\<open>str\<close> pattern and
  what the argument-less \<^verbatim>\<open>str.split()\<close> splits at.
\<close>

definition is_space :: "nat \<Rightarrow> bool" where
  "is_space c \<longleftrightarrow>
     (9 \<le> c \<and> c \<le> 13) \<or> (28 \<le> c \<and> c \<le> 32) \<or> c = 133 \<or> c = 160 \<or> c = 5760 \<or>
     (8192 \<le> c \<and> c \<le> 8202) \<or> c = 8232 \<or> c = 8233 \<or> c = 8239 \<or> c = 8287 \<or> c = 12288"

text \<open>The character class \<^verbatim>\<open>a-zA-Z0-9\<close>.\<close>

definition is_ascii_alnum :: "nat \<Rightarrow> bool" where
  "is_ascii_alnum c \<longleftrightarrow> (97 \<le> c \<and> c \<le> 122) \<or> (65 \<le> c \<and> c \<le> 90) \<or> (48 \<le> c \<and> c \<le> 57)"

text \<open>
  \<^verbatim>\<open>cleaned.split()\<close>: one scan from the left; \<open>cur\<close> is the token being read. Runs of
  whitespace separate tokens and no token is empty.
\<close>

fun split_scan :: "pystr \<Rightarrow> pystr \<Rightarrow> pystr list" where
  "split_scan cur [] = (if cur = [] then [] else [cur])"
| "split_scan cur (c # cs) =
     (if is_space c then (if cur = [] then split_scan [] cs else cur # split_scan [] cs)
      else split_scan (cur @ [c]) cs)"

definition split_ws :: "pystr \<Rightarrow> pystr list" where
  "split_ws s = split_scan [] s"

text \<open>\<^verbatim>\<open>' '.join(ws)\<close>.\<close>

fun join_sp :: "pystr list \<Rightarrow> pystr" where
  "join_sp [] = []"
| "join_sp [w] = w"
| "join_sp (w # v # ws) = w @ [32] @ join_sp (v # ws)"

text \<open>
  \<^verbatim>\<open>
  def clean_name(text):
      cleaned = re.sub(r'[^a-zA-Z0-9\s]', '', text)
      cleaned = ' '.join(cleaned.split())
      return cleaned
  \<close>
\<close>

definition clean_name :: "pystr \<Rightarrow> pystr" where
  "clean_name text = join_sp (split_ws (filter (\<lambda>c. is_ascii_alnum c \<or> is_space c) text))"

text \<open>
  \<^verbatim>\<open>any(lo <= char <= hi for char in text)\<close>, with \<open>lo\<close> the character U+4E00 and
  \<open>hi\<close> the character U+9FFF.
\<close>

definition has_chinese :: "pystr \<Rightarrow> bool" where
  "has_chinese text = list_ex (\<lambda>c. 19968 \<le> c \<and> c \<le> 40959) text"

text \<open>
  The two module constants. The first three deny-listed names start with CJK characters,
  given by their code points.
\<close>

definition FOLDERS_TO_REMOVE :: "pystr list" where
  "FOLDERS_TO_REMOVE =
     [[20854, 23427, 35821, 38899] @ py '' - Others'',
      [24102, 21464, 37327, 35821, 38899] @ py '' - Placeholder'',
      [25112, 26007, 35821, 38899] @ py '' - Battle'',
      py ''#Unknown'']"

definition AUDIO_EXTENSIONS :: "pystr list" where
  "AUDIO_EXTENSIONS = [py ''.mp3'', py ''.wav'', py ''.ogg'', py ''.m4a'', py ''.flac'']"

subsection \<open>The trailing-number pattern\<close>

text \<open>
  \<^verbatim>\<open>pattern = re.compile(r'[_-]?(\d+)$')\<close>. The class \<^verbatim>\<open>\d\<close> of a \<^verbatim>\<open>str\<close> pattern is
  the decimal-digit property of the interpreter's Unicode tables; it is the parameter
  \<open>d\<close>. Without \<^verbatim>\<open>re.MULTILINE\<close>, \<^verbatim>\<open>$\<close> matches at the end of the string and also just
  before a newline that ends the string.

  \<open>digits_to_end d t\<close>: \<^verbatim>\<open>\d+$\<close> matches \<open>t\<close> from its first character.
  \<open>pattern_match d t\<close>: the whole pattern matches \<open>t\<close> from its first character (the
  separator is tried first and then given up, as backtracking does).
  \<open>pattern_search d s\<close> is \<^verbatim>\<open>pattern.search(s)\<close>: the start of the leftmost match.
\<close>

definition digits_to_end :: "(nat \<Rightarrow> bool) \<Rightarrow> pystr \<Rightarrow> bool" where
  "digits_to_end d t \<longleftrightarrow>
     (t \<noteq> [] \<and> list_all d t) \<or>
     (t \<noteq> [] \<and> last t = 10 \<and> butlast t \<noteq> [] \<and> list_all d (butlast t))"

definition pattern_match :: "(nat \<Rightarrow> bool) \<Rightarrow> pystr \<Rightarrow> bool" where
  "pattern_match d t \<longleftrightarrow>
     (case t of [] \<Rightarrow> False
      | c # r \<Rightarrow> ((c = 95 \<or> c = 45) \<and> digits_to_end d r) \<or> digits_to_end d t)"

fun pattern_search :: "(nat \<Rightarrow> bool) \<Rightarrow> pystr \<Rightarrow> nat option" where
  "pattern_search d [] = None"
| "pattern_search d (c # cs) =
     (if pattern_match d (c # cs) then Some 0 else map_option Suc (pattern_search d cs))"

text \<open>
  \<^verbatim>\<open>new_name = dir_name[:match.start()]\<close>, for a name the pattern matches.
\<close>

definition base_name :: "(nat \<Rightarrow> bool) \<Rightarrow> pystr \<Rightarrow> pystr option" where
  "base_name d dir_name = map_option (\<lambda>start. take start dir_name) (pattern_search d dir_name)"

subsection \<open>Other string functions of the standard library\<close>

text \<open>
  \<^verbatim>\<open>str.lower\<close> on ASCII letters; other code points are left as they are (none of them
  lowers to a character of the extensions that the program compares with).
\<close>

definition lower :: "pystr \<Rightarrow> pystr" where
  "lower s = map (\<lambda>c. if 65 \<le> c \<and> c \<le> 90 then c + 32 else c) s"

definition endswith :: "pystr \<Rightarrow> pystr \<Rightarrow> bool" where
  "endswith s suf \<longleftrightarrow> length suf \<le> length s \<and> drop (length s - length suf) s = suf"

text \<open>\<^verbatim>\<open>s.replace(old, new)\<close> for a non-empty \<open>old\<close>: all occurrences, from the left.\<close>

function replace :: "pystr \<Rightarrow> pystr \<Rightarrow> pystr \<Rightarrow> pystr" where
  "replace old new s =
     (if s = [] \<or> old = [] then s
      else if take (length old) s = old then new @ replace old new (drop (length old) s)
      else hd s # replace old new (tl s))"
  by pat_completeness auto
termination
  by (relation "measure (\<lambda>(old, new, s). length s)") auto

declare replace.simps [simp del]

text \<open>\<^verbatim>\<open>str(n)\<close> for a counter.\<close>

fun str_nat :: "nat \<Rightarrow> pystr" where
  "str_nat n = (if n < 10 then [48 + n] else str_nat (n div 10) @ [48 + n mod 10])"

declare str_nat.simps [simp del]

definition nat_of_str :: "pystr \<Rightarrow> nat" where
  "nat_of_str s = foldl (\<lambda>a c. 10 * a + (c - 48)) 0 s"

section \<open>The file system\<close>

text \<open>
  A path is the list of its components: \<^verbatim>\<open>a/b/c\<close> is \<open>[a, b, c]\<close>, relative to a base
  directory that is the root of the tree. An empty component stands for a doubled or a
  trailing slash, which the operating system ignores; \<^verbatim>\<open>.\<close> and \<^verbatim>\<open>..\<close> are not
  interpreted. A directory lists its entries in the order the operating system would
  report them. Permissions and symbolic links are not modelled, and the system calls
  are those of POSIX.
\<close>

type_synonym path = "pystr list"
type_synonym bytes = string

datatype node = File bytes | Dir "(pystr \<times> node) list"

datatype error =
  FileNotFoundError | FileExistsError | NotADirectoryError | IsADirectoryError | OSError | ShutilError

text \<open>
  \<^verbatim>\<open>os.path.join(p, n)\<close> for a relative name \<open>n\<close>: a slash is added unless \<open>p\<close> ends
  with one. In particular \<^verbatim>\<open>os.path.join(root, '')\<close> is \<^verbatim>\<open>root/\<close>.
\<close>

definition os_path_join :: "path \<Rightarrow> pystr \<Rightarrow> path" where
  "os_path_join p n = (if p \<noteq> [] \<and> last p = [] then butlast p @ [n] else p @ [n])"

definition norm :: "path \<Rightarrow> path" where
  "norm p = filter (\<lambda>c. c \<noteq> []) p"

fun lookup :: "node \<Rightarrow> path \<Rightarrow> node option" where
  "lookup n [] = Some n"
| "lookup (File b) (c # p) = None"
| "lookup (Dir es) (c # p) = (case map_of es c of None \<Rightarrow> None | Some ch \<Rightarrow> lookup ch p)"

text \<open>What a path names, if anything. A path with a trailing slash names directories only.\<close>

definition stat :: "node \<Rightarrow> path \<Rightarrow> node option" where
  "stat fs p =
     (case lookup fs (norm p) of
        Some (File b) \<Rightarrow> if p \<noteq> [] \<and> last p = [] then None else Some (File b)
      | r \<Rightarrow> r)"

definition os_path_exists :: "node \<Rightarrow> path \<Rightarrow> bool" where
  "os_path_exists fs p \<longleftrightarrow> stat fs p \<noteq> None"

definition os_path_isdir :: "node \<Rightarrow> path \<Rightarrow> bool" where
  "os_path_isdir fs p \<longleftrightarrow> (case stat fs p of Some (Dir es) \<Rightarrow> True | _ \<Rightarrow> False)"

text \<open>\<open>modify p f fs\<close> applies \<open>f\<close> to the entries of the directory at \<open>p\<close>.\<close>

fun modify :: "path \<Rightarrow> ((pystr \<times> node) list \<Rightarrow> (pystr \<times> node) list) \<Rightarrow> node \<Rightarrow> node" where
  "modify p f (File b) = File b"
| "modify [] f (Dir es) = Dir (f es)"
| "modify (c # p) f (Dir es) =
     Dir (map (\<lambda>e. if fst e = c then (fst e, modify p f (snd e)) else e) es)"

definition put_entry :: "pystr \<Rightarrow> node \<Rightarrow> (pystr \<times> node) list \<Rightarrow> (pystr \<times> node) list" where
  "put_entry name n es =
     (if name \<in> fst ` set es then map (\<lambda>e. if fst e = name then (name, n) else e) es
      else es @ [(name, n)])"

definition delete :: "path \<Rightarrow> node \<Rightarrow> node" where
  "delete p fs = modify (butlast p) (filter (\<lambda>e. fst e \<noteq> last p)) fs"

definition put :: "path \<Rightarrow> node \<Rightarrow> node \<Rightarrow> node" where
  "put p n fs = modify (butlast p) (put_entry (last p) n) fs"

definition read_bytes :: "node \<Rightarrow> path \<Rightarrow> bytes option" where
  "read_bytes fs p = (case stat fs p of Some (File b) \<Rightarrow> Some b | _ \<Rightarrow> None)"

text \<open>Opening a file for writing creates it or replaces its content.\<close>

definition write_file :: "node \<Rightarrow> path \<Rightarrow> bytes \<Rightarrow> error + node" where
  "write_file fs p b =
     (if norm p = [] then Inl IsADirectoryError
      else case lookup fs (butlast (norm p)) of
        None \<Rightarrow> Inl FileNotFoundError
      | Some (File a) \<Rightarrow> Inl NotADirectoryError
      | Some (Dir ps) \<Rightarrow>
          (case lookup fs (norm p) of
             Some (Dir es) \<Rightarrow> Inl IsADirectoryError
           | _ \<Rightarrow> Inr (put (norm p) (File b) fs)))"

definition os_listdir :: "node \<Rightarrow> path \<Rightarrow> error + pystr list" where
  "os_listdir fs p =
     (case stat fs p of
        None \<Rightarrow> Inl FileNotFoundError
      | Some (File b) \<Rightarrow> Inl NotADirectoryError
      | Some (Dir es) \<Rightarrow> Inr (map fst es))"

definition os_remove :: "node \<Rightarrow> path \<Rightarrow> error + node" where
  "os_remove fs p =
     (case stat fs p of
        None \<Rightarrow> Inl FileNotFoundError
      | Some (Dir es) \<Rightarrow> Inl IsADirectoryError
      | Some (File b) \<Rightarrow> Inr (delete (norm p) fs))"

definition shutil_rmtree :: "node \<Rightarrow> path \<Rightarrow> error + node" where
  "shutil_rmtree fs p =
     (case stat fs p of
        None \<Rightarrow> Inl FileNotFoundError
      | Some (File b) \<Rightarrow> Inl NotADirectoryError
      | Some (Dir es) \<Rightarrow> if norm p = [] then Inl OSError else Inr (delete (norm p) fs))"

text \<open>
  \<^verbatim>\<open>os.rename\<close>, that is \<^verbatim>\<open>rename(2)\<close>: a file replaces an existing file, a directory
  replaces an existing empty directory, and every other occupied destination is an
  error. A directory cannot be moved below itself.
\<close>

definition os_rename :: "node \<Rightarrow> path \<Rightarrow> path \<Rightarrow> error + node" where
  "os_rename fs src dst =
     (case stat fs src of
        None \<Rightarrow> Inl FileNotFoundError
      | Some n \<Rightarrow>
          if norm src = [] \<or> norm dst = [] then Inl OSError
          else if norm src = norm dst then Inr fs
          else if prefix (norm src) (norm dst) then Inl OSError
          else
            (case lookup fs (butlast (norm dst)) of
               None \<Rightarrow> Inl FileNotFoundError
             | Some (File a) \<Rightarrow> Inl NotADirectoryError
             | Some (Dir ps) \<Rightarrow>
                 (case lookup fs (norm dst) of
                    None \<Rightarrow> Inr (put (norm dst) n (delete (norm src) fs))
                  | Some (File b) \<Rightarrow>
                      (case n of
                         File a \<Rightarrow> Inr (put (norm dst) n (delete (norm src) fs))
                       | Dir ds \<Rightarrow> Inl NotADirectoryError)
                  | Some (Dir es) \<Rightarrow>
                      (case n of
                         File a \<Rightarrow> Inl IsADirectoryError
                       | Dir ds \<Rightarrow>
                           if es = [] then Inr (put (norm dst) n (delete (norm src) fs))
                           else Inl OSError))))"

definition basename :: "path \<Rightarrow> pystr" where
  "basename p = (if norm p = [] then [] else last (norm p))"

text \<open>
  \<^verbatim>\<open>shutil.move(src, dst)\<close>: into \<open>dst\<close> when \<open>dst\<close> is a directory, and then an entry
  of the same name there is an error (\<^verbatim>\<open>shutil.Error\<close>: destination path already
  exists); onto \<open>dst\<close> otherwise, by \<^verbatim>\<open>os.rename\<close>. When \<^verbatim>\<open>os.rename\<close> raises,
  \<^verbatim>\<open>shutil.move\<close> tries to copy instead; with the parent of the destination in place, as
  it is wherever the program moves something, the copy raises as well, so the error is
  the result.
\<close>

definition shutil_move :: "node \<Rightarrow> path \<Rightarrow> path \<Rightarrow> error + node" where
  "shutil_move fs src dst =
     (if os_path_isdir fs dst then
        (if norm src = norm dst then os_rename fs src dst
         else if os_path_exists fs (os_path_join dst (basename src)) then Inl ShutilError
         else os_rename fs src (os_path_join dst (basename src)))
      else os_rename fs src dst)"

subsection \<open>Walking the tree\<close>

fun dirs_of :: "(pystr \<times> node) list \<Rightarrow> pystr list" where
  "dirs_of [] = []"
| "dirs_of ((n, Dir es) # r) = n # dirs_of r"
| "dirs_of ((n, File b) # r) = dirs_of r"

fun files_of :: "(pystr \<times> node) list \<Rightarrow> pystr list" where
  "files_of [] = []"
| "files_of ((n, Dir es) # r) = files_of r"
| "files_of ((n, File b) # r) = n # files_of r"

text \<open>
  \<^verbatim>\<open>os.walk(top, topdown=False)\<close> yields \<^verbatim>\<open>(root, dirs, files)\<close> for every directory,
  children before their parent; \<^verbatim>\<open>os.walk(top)\<close> yields parents first. A path that is
  no directory yields nothing.

  The walk is a generator, and the loop bodies of the program change the tree between
  two of its steps. Each body, run for \<^verbatim>\<open>(root, dirs, files)\<close>, renames, moves and
  deletes below \<^verbatim>\<open>root\<close> only, and bottom-up every directory below \<^verbatim>\<open>root\<close> has
  been listed by then, while the directories still to be listed lie outside
  \<^verbatim>\<open>root\<close>. So the generator lists each directory as it was when the walk began, and
  the triples it yields are those of the tree the walk started on: the passes below
  compute them first and then run their bodies over them. The walk of the audio pass
  only collects paths.
\<close>

fun walk_bottomup :: "path \<Rightarrow> node \<Rightarrow> (path \<times> pystr list \<times> pystr list) list" where
  "walk_bottomup tp (File b) = []"
| "walk_bottomup tp (Dir es) =
     concat (map (\<lambda>e. walk_bottomup (os_path_join tp (fst e)) (snd e)) es) @
     [(tp, dirs_of es, files_of es)]"

fun walk_topdown :: "path \<Rightarrow> node \<Rightarrow> (path \<times> pystr list \<times> pystr list) list" where
  "walk_topdown tp (File b) = []"
| "walk_topdown tp (Dir es) =
     (tp, dirs_of es, files_of es) #
     concat (map (\<lambda>e. walk_topdown (os_path_join tp (fst e)) (snd e)) es)"

definition os_walk :: "node \<Rightarrow> path \<Rightarrow> (path \<times> pystr list \<times> pystr list) list" where
  "os_walk fs tp = (case stat fs tp of Some n \<Rightarrow> walk_topdown tp n | None \<Rightarrow> [])"

definition os_walk_bottomup :: "node \<Rightarrow> path \<Rightarrow> (path \<times> pystr list \<times> pystr list) list" where
  "os_walk_bottomup fs tp = (case stat fs tp of Some n \<Rightarrow> walk_bottomup tp n | None \<Rightarrow> [])"

subsection \<open>Suffixes\<close>

text \<open>
  \<^verbatim>\<open>os.path.splitext\<close> on the last component of a path: the extension starts at the last
  dot, unless only dots come before it.
\<close>

definition os_path_splitext :: "pystr \<Rightarrow> pystr \<times> pystr" where
  "os_path_splitext nm =
     (let i = length nm - Suc (length (takeWhile (\<lambda>c. c \<noteq> 46) (rev nm)))
      in if 46 \<in> set nm \<and> list_ex (\<lambda>c. c \<noteq> 46) (take i nm) then (take i nm, drop i nm)
         else (nm, []))"

text \<open>
  \<^verbatim>\<open>PurePath.suffix\<close> of a name: from the last dot, when that dot is neither the first
  nor the last character. \<^verbatim>\<open>str(Path(p).with_suffix(suf))\<close> replaces it; \<^verbatim>\<open>Path\<close>
  drops empty components, and a path with no name raises (\<open>None\<close>).
\<close>

definition path_suffix :: "pystr \<Rightarrow> pystr" where
  "path_suffix nm =
     (let i = length nm - Suc (length (takeWhile (\<lambda>c. c \<noteq> 46) (rev nm)))
      in if 46 \<in> set nm \<and> 0 < i \<and> Suc i < length nm then drop i nm else [])"

definition with_suffix :: "path \<Rightarrow> pystr \<Rightarrow> path option" where
  "with_suffix p suf =
     (if norm p = [] then None
      else let nm = last (norm p)
           in Some (butlast (norm p) @ [take (length nm - length (path_suffix nm)) nm @ suf]))"

section \<open>Removing and renaming\<close>

text \<open>
  \<^verbatim>\<open>
  def safe_remove_folder(folder_path, dry_run=False):
      try:
          if dry_run:
              return True
          shutil.rmtree(folder_path)
          return True
      except PermissionError: ...
      except Exception as e: ...
      return False
  \<close>
\<close>

definition safe_remove_folder :: "node \<Rightarrow> path \<Rightarrow> bool \<Rightarrow> node \<times> bool" where
  "safe_remove_folder fs folder_path dry_run =
     (if dry_run then (fs, True)
      else case shutil_rmtree fs folder_path of
             Inr fs' \<Rightarrow> (fs', True)
           | Inl e \<Rightarrow> (fs, False))"

text \<open>
  \<^verbatim>\<open>
  def safe_rename(old_path, new_path):
      try:
          if old_path == new_path:
              return True
          base_path = new_path
          counter = 1
          while os.path.exists(new_path):
              name, ext = os.path.splitext(base_path)
              new_path = f"{name}_{counter}{ext}"
              counter += 1
          os.rename(old_path, new_path)
          return True
      except ...:
      return False
  \<close>
  \<open>candidate base_path counter\<close> is the path that the loop body builds.
  \<open>next_free\<close> is the loop from its second test on, \<open>free_path\<close> the whole loop.
\<close>

definition candidate :: "path \<Rightarrow> nat \<Rightarrow> path" where
  "candidate base_path counter =
     (let nm = (if base_path = [] then [] else last base_path);
          (name, ext) = os_path_splitext nm
      in butlast base_path @ [name @ [95] @ str_nat counter @ ext])"

function next_free :: "node \<Rightarrow> path \<Rightarrow> nat \<Rightarrow> path" where
  "next_free fs base_path counter =
     (if os_path_exists fs (candidate base_path counter)
      then next_free fs base_path (Suc counter)
      else candidate base_path counter)"
  by pat_completeness auto

text \<open>
  The loop stops: the candidates differ from one another, and a directory has finitely
  many entries.
\<close>

lemma nat_of_str_nat: "nat_of_str (str_nat n) = n"
proof (induction n rule: str_nat.induct)
  case (1 n)
  show ?case
  proof (cases "n < 10")
    case True
    then show ?thesis by (simp add: str_nat.simps [of n] nat_of_str_def)
  next
    case False
    with 1 have "nat_of_str (str_nat (n div 10)) = n div 10" by simp
    with False show ?thesis by (simp add: str_nat.simps [of n] nat_of_str_def)
  qed
qed

lemma str_nat_inj: "str_nat a = str_nat b \<Longrightarrow> a = b"
  by (metis nat_of_str_nat)

lemma candidate_inj: "candidate base a = candidate base b \<Longrightarrow> a = b"
  by (auto simp: candidate_def Let_def split: prod.splits dest: str_nat_inj)

lemma candidate_last_nonempty: "candidate base k \<noteq> [] \<and> last (candidate base k) \<noteq> []"
  by (simp add: candidate_def Let_def split: prod.splits)

lemma butlast_candidate: "butlast (candidate base k) = butlast base"
  by (simp add: candidate_def Let_def split: prod.splits)

lemma lookup_snoc:
  "lookup fs (r @ [nm]) \<noteq> None \<Longrightarrow> \<exists>es. lookup fs r = Some (Dir es) \<and> nm \<in> fst ` set es"
proof (induction r arbitrary: fs)
  case Nil
  then show ?case
    by (cases fs) (auto split: option.splits dest: map_of_SomeD intro: rev_image_eqI)
next
  case (Cons c r)
  then show ?case by (cases fs) (auto split: option.splits)
qed

lemma norm_snoc: "nm \<noteq> [] \<Longrightarrow> norm (p @ [nm]) = norm p @ [nm]"
  by (simp add: norm_def)

lemma os_path_exists_lookup: "os_path_exists fs p \<Longrightarrow> lookup fs (norm p) \<noteq> None"
  by (auto simp: os_path_exists_def stat_def split: option.splits node.splits if_splits)

lemma finite_candidates: "finite {k. os_path_exists fs (candidate base k)}"
proof -
  define names where
    "names = (case lookup fs (norm (butlast base)) of Some (Dir es) \<Rightarrow> fst ` set es | _ \<Rightarrow> {})"
  have fin: "finite names"
    by (simp add: names_def split: option.splits node.splits)
  have "last (candidate base k) \<in> names" if "os_path_exists fs (candidate base k)" for k
  proof -
    have c: "candidate base k = butlast base @ [last (candidate base k)]"
      using candidate_last_nonempty [of base k] butlast_candidate [of base k]
      by (metis append_butlast_last_id)
    from that have "lookup fs (norm (candidate base k)) \<noteq> None"
      by (rule os_path_exists_lookup)
    with c have "lookup fs (norm (butlast base) @ [last (candidate base k)]) \<noteq> None"
      using norm_snoc [of "last (candidate base k)" "butlast base"]
        candidate_last_nonempty [of base k]
      by simp
    then obtain es where "lookup fs (norm (butlast base)) = Some (Dir es)"
      and "last (candidate base k) \<in> fst ` set es"
      using lookup_snoc by blast
    then show ?thesis by (simp add: names_def)
  qed
  then have "{k. os_path_exists fs (candidate base k)} \<subseteq> (\<lambda>k. last (candidate base k)) -` names"
    by auto
  moreover have "inj (\<lambda>k. last (candidate base k))"
  proof (rule injI)
    fix a b assume "last (candidate base a) = last (candidate base b)"
    then have "candidate base a = candidate base b"
      using butlast_candidate [of base a] butlast_candidate [of base b]
        candidate_last_nonempty [of base a] candidate_last_nonempty [of base b]
      by (metis append_butlast_last_id)
    then show "a = b" by (rule candidate_inj)
  qed
  ultimately show ?thesis using fin by (meson finite_subset finite_vimageI)
qed

termination next_free
proof (relation "measure (\<lambda>(fs, base, counter).
    card {k. counter \<le> k \<and> os_path_exists fs (candidate base k)})")
  show "wf (measure (\<lambda>(fs, base, counter).
    card {k. counter \<le> k \<and> os_path_exists fs (candidate base k)}))"
    by simp
next
  fix fs base counter
  assume ex: "os_path_exists fs (candidate base counter)"
  let ?A = "{k. counter \<le> k \<and> os_path_exists fs (candidate base k)}"
  let ?B = "{k. Suc counter \<le> k \<and> os_path_exists fs (candidate base k)}"
  have fin: "finite ?A" using finite_candidates [of fs base] by simp
  have "counter \<in> ?A" "counter \<notin> ?B" "?B \<subseteq> ?A" using ex by auto
  then have "?B \<subset> ?A" by blast
  with fin have "card ?B < card ?A" by (rule psubset_card_mono)
  then show "((fs, base, Suc counter), (fs, base, counter)) \<in>
     measure (\<lambda>(fs, base, counter). card {k. counter \<le> k \<and> os_path_exists fs (candidate base k)})"
    by simp
qed

declare next_free.simps [simp del]

definition free_path :: "node \<Rightarrow> path \<Rightarrow> path" where
  "free_path fs new_path =
     (if os_path_exists fs new_path then next_free fs new_path 1 else new_path)"

definition safe_rename :: "node \<Rightarrow> path \<Rightarrow> path \<Rightarrow> node \<times> bool" where
  "safe_rename fs old_path new_path =
     (if old_path = new_path then (fs, True)
      else case os_rename fs old_path (free_path fs new_path) of
             Inr fs' \<Rightarrow> (fs', True)
           | Inl e \<Rightarrow> (fs, False))"

section \<open>The collaborators outside the repository\<close>

text \<open>
  The program calls \<^verbatim>\<open>pypinyin\<close>, \<^verbatim>\<open>soundfile\<close>, \<^verbatim>\<open>scipy\<close> and \<^verbatim>\<open>pydub\<close>, and its
  pattern consults the interpreter's Unicode tables. None of them is part of the
  repository: they are the fields of an environment, so that every theorem holds for
  whatever they compute. \<open>None\<close> stands for a raised exception.

  \<^item> \<open>is_decimal\<close>: the class \<^verbatim>\<open>\d\<close>;
  \<^item> \<open>lazy_pinyin\<close>: \<^verbatim>\<open>pypinyin.lazy_pinyin(text, strict=False)\<close>;
  \<^item> \<open>capitalize\<close>: \<^verbatim>\<open>str.capitalize\<close>;
  \<^item> \<open>sf_read\<close>: \<^verbatim>\<open>soundfile.read\<close> of a file's content, giving the number of channels
    of the data and the sample rate;
  \<^item> \<open>sf_convert\<close>: the content that \<^verbatim>\<open>data.mean(axis=1)\<close>, \<^verbatim>\<open>signal.resample\<close> and
    \<^verbatim>\<open>soundfile.write\<close> leave in the file;
  \<^item> \<open>from_file\<close>: \<^verbatim>\<open>AudioSegment.from_file\<close>, of a path and the content found there;
  \<^item> \<open>set_channels\<close>, \<open>set_frame_rate\<close>, \<open>export\<close>: the methods of \<^verbatim>\<open>AudioSegment\<close>,
    \<open>export\<close> giving the content written in WAV format.

  An \<^verbatim>\<open>AudioSegment\<close> has its channel count, its frame rate and its length
  \<^verbatim>\<open>len(audio)\<close> in milliseconds.
\<close>

record audio =
  channels :: nat
  frame_rate :: nat
  millis :: nat
  pcm :: bytes

record env =
  is_decimal :: "nat \<Rightarrow> bool"
  lazy_pinyin :: "pystr \<Rightarrow> pystr list option"
  capitalize :: "pystr \<Rightarrow> pystr"
  sf_read :: "bytes \<Rightarrow> (nat \<times> nat) option"
  sf_convert :: "bytes \<Rightarrow> bytes option"
  from_file :: "path \<Rightarrow> bytes \<Rightarrow> audio option"
  set_channels :: "audio \<Rightarrow> nat \<Rightarrow> audio"
  set_frame_rate :: "audio \<Rightarrow> nat \<Rightarrow> audio"
  export :: "audio \<Rightarrow> bytes"

text \<open>
  \<^verbatim>\<open>
  def convert_to_pinyin(text):
      try:
          pinyin_list = pypinyin.lazy_pinyin(text, strict=False)
          pinyin = ''.join(word.capitalize() for word in pinyin_list)
          return clean_name(pinyin)
      except Exception as e:
          return clean_name(text)
  \<close>
\<close>

definition convert_to_pinyin :: "env \<Rightarrow> pystr \<Rightarrow> pystr" where
  "convert_to_pinyin env text =
     (case lazy_pinyin env text of
        Some pinyin_list \<Rightarrow> clean_name (concat (map (capitalize env) pinyin_list))
      | None \<Rightarrow> clean_name text)"

section \<open>The audio pass\<close>

text \<open>\<^verbatim>\<open>AudioSegment.from_file(file_path)\<close>: it raises when the file cannot be read.\<close>

definition decode :: "env \<Rightarrow> node \<Rightarrow> path \<Rightarrow> audio option" where
  "decode env fs file_path =
     (case read_bytes fs file_path of None \<Rightarrow> None | Some b \<Rightarrow> from_file env file_path b)"

text \<open>
  \<^verbatim>\<open>
  def get_audio_duration(file_path):
      try:
          audio = AudioSegment.from_file(file_path)
          return len(audio) / 1000.0
      except Exception as e:
          return 0.0
  \<close>
  The result is kept in milliseconds: \<^verbatim>\<open>len(audio)\<close> is an integer, and
  \<^verbatim>\<open>len(audio) / 1000.0 < 1.0\<close> holds exactly when \<^verbatim>\<open>len(audio) < 1000\<close>.
\<close>

definition get_audio_duration :: "env \<Rightarrow> node \<Rightarrow> path \<Rightarrow> nat" where
  "get_audio_duration env fs file_path =
     (case decode env fs file_path of Some a \<Rightarrow> millis a | None \<Rightarrow> 0)"

text \<open>
  \<^verbatim>\<open>convert_audio_format(file_path, dry_run)\<close> returns a path and a flag; the model
  returns the file system as well. Its first part is the inner \<^verbatim>\<open>try\<close> for
  \<^verbatim>\<open>.wav\<close> files, where \<open>None\<close> means that an exception leads on to the second part:
  \<^verbatim>\<open>
  data, sample_rate = sf.read(file_path)
  needs_conversion = False
  if len(data.shape) > 1 and data.shape[1] > 1: needs_conversion = True
  if sample_rate != 44100: needs_conversion = True
  if not needs_conversion: return file_path, False
  if dry_run: return file_path, True
  if len(data.shape) > 1 and data.shape[1] > 1: data = data.mean(axis=1)
  if sample_rate != 44100: ... data = signal.resample(data, new_length)
  sf.write(file_path, data, 44100)
  return file_path, True
  \<close>
\<close>

definition convert_wav :: "env \<Rightarrow> node \<Rightarrow> path \<Rightarrow> bool \<Rightarrow> (node \<times> path \<times> bool) option" where
  "convert_wav env fs file_path dry_run =
     (case read_bytes fs file_path of
        None \<Rightarrow> None
      | Some b \<Rightarrow>
          (case sf_read env b of
             None \<Rightarrow> None
           | Some (nchannels, sample_rate) \<Rightarrow>
               if \<not> (nchannels > 1 \<or> sample_rate \<noteq> 44100) then Some (fs, file_path, False)
               else if dry_run then Some (fs, file_path, True)
               else
                 (case sf_convert env b of
                    None \<Rightarrow> None
                  | Some b' \<Rightarrow>
                      (case write_file fs file_path b' of
                         Inl e \<Rightarrow> None
                       | Inr fs' \<Rightarrow> Some (fs', file_path, True)))))"

text \<open>
  The second part, under the outer \<^verbatim>\<open>try\<close> whose handler returns
  \<^verbatim>\<open>(file_path, False)\<close>:
  \<^verbatim>\<open>
  audio = AudioSegment.from_file(file_path)
  if audio.channels > 1: audio = audio.set_channels(1)
  if audio.frame_rate != 44100: audio = audio.set_frame_rate(44100)
  new_path = str(Path(file_path).with_suffix('.wav'))
  if (file_path == new_path and audio.channels == 1 and audio.frame_rate == 44100):
      return file_path, False
  if dry_run: return new_path, True
  audio.export(new_path, format='wav')
  if file_path != new_path: os.remove(file_path)
  return new_path, True
  \<close>
\<close>

definition convert_pydub :: "env \<Rightarrow> node \<Rightarrow> path \<Rightarrow> bool \<Rightarrow> node \<times> path \<times> bool" where
  "convert_pydub env fs file_path dry_run =
     (case decode env fs file_path of
        None \<Rightarrow> (fs, file_path, False)
      | Some a0 \<Rightarrow>
          let a1 = (if channels a0 > 1 then set_channels env a0 1 else a0);
              a2 = (if frame_rate a1 \<noteq> 44100 then set_frame_rate env a1 44100 else a1)
          in case with_suffix file_path (py ''.wav'') of
               None \<Rightarrow> (fs, file_path, False)
             | Some new_path \<Rightarrow>
                 if file_path = new_path \<and> channels a2 = 1 \<and> frame_rate a2 = 44100
                 then (fs, file_path, False)
                 else if dry_run then (fs, new_path, True)
                 else
                   (case write_file fs new_path (export env a2) of
                      Inl e \<Rightarrow> (fs, file_path, False)
                    | Inr fs' \<Rightarrow>
                        if file_path \<noteq> new_path then
                          (case os_remove fs' file_path of
                             Inl e \<Rightarrow> (fs', file_path, False)
                           | Inr fs'' \<Rightarrow> (fs'', new_path, True))
                        else (fs', new_path, True)))"

text \<open>
  \<^verbatim>\<open>
  def convert_audio_format(file_path, dry_run=False):
      try:
          if not os.path.exists(file_path): return file_path, False
          if file_path.lower().endswith('.wav'):
              try: ...
              except Exception as e: pass
          ...
      except Exception as e:
          return file_path, False
  \<close>
  The last four characters of a path are those of its last component (a shorter last
  component puts a slash among them, which is no character of \<^verbatim>\<open>.wav\<close>).
\<close>

definition convert_audio_format :: "env \<Rightarrow> node \<Rightarrow> path \<Rightarrow> bool \<Rightarrow> node \<times> path \<times> bool" where
  "convert_audio_format env fs file_path dry_run =
     (if \<not> os_path_exists fs file_path then (fs, file_path, False)
      else case (if file_path \<noteq> [] \<and> endswith (lower (last file_path)) (py ''.wav'')
                 then convert_wav env fs file_path dry_run else None) of
             Some r \<Rightarrow> r
           | None \<Rightarrow> convert_pydub env fs file_path dry_run)"

text \<open>
  \<^verbatim>\<open>
  def process_audio_file(args):
      file_path, dry_run = args
      file_path, _ = convert_audio_format(file_path, dry_run)
      duration = get_audio_duration(file_path)
      if duration < 1.0:
          if dry_run: ...
          else:
              try:
                  os.remove(file_path)
                  os.remove(file_path.replace('.wav', '.lab'))
              except Exception as e: ...
          return file_path, True
      return file_path, False
  \<close>
  \<^verbatim>\<open>replace\<close> works on the whole path; \<^verbatim>\<open>.wav\<close> has no slash, so it works on each
  component by itself.
\<close>

definition process_audio_file :: "env \<Rightarrow> node \<Rightarrow> path \<times> bool \<Rightarrow> node \<times> path \<times> bool" where
  "process_audio_file env fs args =
     (let (file_path0, dry_run) = args;
          (fs1, file_path, converted) = convert_audio_format env fs file_path0 dry_run;
          duration = get_audio_duration env fs1 file_path
      in if duration < 1000 then
           (if dry_run then (fs1, file_path, True)
            else case os_remove fs1 file_path of
                   Inl e \<Rightarrow> (fs1, file_path, True)
                 | Inr fs2 \<Rightarrow>
                     (case os_remove fs2 (map (replace (py ''.wav'') (py ''.lab'')) file_path) of
                        Inl e \<Rightarrow> (fs2, file_path, True)
                      | Inr fs3 \<Rightarrow> (fs3, file_path, True)))
         else (fs1, file_path, False))"

text \<open>
  \<^verbatim>\<open>
  def remove_short_audio_files(target_folder, dry_run=False):
      audio_files = []
      for root, _, files in os.walk(target_folder):
          for file in files:
              if Path(file).suffix.lower() in AUDIO_EXTENSIONS:
                  audio_files.append((os.path.join(root, file), dry_run))
      if not audio_files: return
      with ThreadPoolExecutor(max_workers=os.cpu_count()) as executor:
          results = list(executor.map(process_audio_file, audio_files))
  \<close>
  The workers are run one after the other here, in the order of the list.
\<close>

definition audio_files :: "node \<Rightarrow> path \<Rightarrow> path list" where
  "audio_files fs target_folder =
     concat (map (\<lambda>(root, dirs, files).
               map (os_path_join root)
                 (filter (\<lambda>file. lower (path_suffix file) \<in> set AUDIO_EXTENSIONS) files))
             (os_walk fs target_folder))"

definition remove_short_audio_files :: "env \<Rightarrow> node \<Rightarrow> path \<Rightarrow> bool \<Rightarrow> node" where
  "remove_short_audio_files env fs target_folder dry_run =
     fold (\<lambda>file_path fs'. fst (process_audio_file env fs' (file_path, dry_run)))
       (audio_files fs target_folder) fs"

section \<open>The folder passes\<close>

text \<open>
  \<^verbatim>\<open>
  def remove_specific_folders(target_folder, dry_run=False):
      try:
          for root, dirs, _ in os.walk(target_folder, topdown=False):
              for dir_name in dirs:
                  if dir_name in FOLDERS_TO_REMOVE:
                      folder_path = os.path.join(root, dir_name)
                      safe_remove_folder(folder_path, dry_run)
      except Exception as e: ...
  \<close>
\<close>

definition remove_specific_folders :: "node \<Rightarrow> path \<Rightarrow> bool \<Rightarrow> node" where
  "remove_specific_folders fs target_folder dry_run =
     fold (\<lambda>(root, dirs, files).
             fold (\<lambda>dir_name fs'.
                     if dir_name \<in> set FOLDERS_TO_REMOVE
                     then fst (safe_remove_folder fs' (os_path_join root dir_name) dry_run)
                     else fs') dirs)
       (os_walk_bottomup fs target_folder) fs"

text \<open>
  A loop whose body may raise: the exception ends the loop, and the file system stays
  as the body left it (\<open>Inl\<close>).
\<close>

fun try_each ::
  "('a \<Rightarrow> node \<Rightarrow> (error \<times> node) + node) \<Rightarrow> 'a list \<Rightarrow> node \<Rightarrow> (error \<times> node) + node" where
  "try_each body [] fs = Inr fs"
| "try_each body (x # xs) fs =
     (case body x fs of Inl r \<Rightarrow> Inl r | Inr fs' \<Rightarrow> try_each body xs fs')"

text \<open>
  The merge of \<^verbatim>\<open>rename_speaker_folders\<close>:
  \<^verbatim>\<open>
  for item in os.listdir(old_path):
      shutil.move(os.path.join(old_path, item), new_path)
  shutil.rmtree(old_path)
  \<close>
\<close>

definition move_item :: "path \<Rightarrow> path \<Rightarrow> pystr \<Rightarrow> node \<Rightarrow> (error \<times> node) + node" where
  "move_item old_path new_path item fs =
     (case shutil_move fs (os_path_join old_path item) new_path of
        Inl e \<Rightarrow> Inl (e, fs)
      | Inr fs' \<Rightarrow> Inr fs')"

definition merge_folder :: "node \<Rightarrow> path \<Rightarrow> path \<Rightarrow> (error \<times> node) + node" where
  "merge_folder fs old_path new_path =
     (case os_listdir fs old_path of
        Inl e \<Rightarrow> Inl (e, fs)
      | Inr items \<Rightarrow>
          (case try_each (move_item old_path new_path) items fs of
             Inl r \<Rightarrow> Inl r
           | Inr fs' \<Rightarrow>
               (case shutil_rmtree fs' old_path of
                  Inl e \<Rightarrow> Inl (e, fs')
                | Inr fs'' \<Rightarrow> Inr fs'')))"

text \<open>
  \<^verbatim>\<open>
  def rename_speaker_folders(target_folder, dry_run=False):
      try:
          pattern = re.compile(r'[_-]?(\d+)$')
          for root, dirs, _ in os.walk(target_folder, topdown=False):
              for dir_name in dirs:
                  match = pattern.search(dir_name)
                  if match:
                      old_path = os.path.join(root, dir_name)
                      new_name = dir_name[:match.start()]
                      new_path = os.path.join(root, new_name)
                      if dry_run: ...
                      else:
                          if os.path.exists(new_path):
                              [the merge]
                          else:
                              safe_rename(old_path, new_path)
      except Exception as e: ...
  \<close>
  \<open>speaker_folder\<close> is the body of the inner loop. An exception of the merge leaves both
  loops, and the pass ends there.
\<close>

definition speaker_folder ::
  "env \<Rightarrow> bool \<Rightarrow> path \<Rightarrow> pystr \<Rightarrow> node \<Rightarrow> (error \<times> node) + node" where
  "speaker_folder env dry_run root dir_name fs =
     (case base_name (is_decimal env) dir_name of
        None \<Rightarrow> Inr fs
      | Some new_name \<Rightarrow>
          let old_path = os_path_join root dir_name;
              new_path = os_path_join root new_name
          in if dry_run then Inr fs
             else if os_path_exists fs new_path then merge_folder fs old_path new_path
             else Inr (fst (safe_rename fs old_path new_path)))"

definition rename_speaker_folders :: "env \<Rightarrow> node \<Rightarrow> path \<Rightarrow> bool \<Rightarrow> node" where
  "rename_speaker_folders env fs target_folder dry_run =
     (case try_each (\<lambda>(root, dirs, files). try_each (speaker_folder env dry_run root) dirs)
             (os_walk_bottomup fs target_folder) fs of
        Inl (e, fs') \<Rightarrow> fs'
      | Inr fs' \<Rightarrow> fs')"

text \<open>
  \<^verbatim>\<open>
  def rename_folders_to_pinyin(target_folder, dry_run=False):
      try:
          if not os.path.exists(target_folder): return
          remove_specific_folders(target_folder, dry_run)
          for root, dirs, _ in os.walk(target_folder, topdown=False):
              for dir_name in dirs:
                  if has_chinese(dir_name):
                      old_path = os.path.join(root, dir_name)
                      new_name = convert_to_pinyin(dir_name)
                      if not new_name: continue
                      new_path = os.path.join(root, new_name)
                      if dry_run: ...
                      else: safe_rename(old_path, new_path)
          remove_short_audio_files(target_folder, dry_run)
      except Exception as e: ...
  \<close>
\<close>

definition pinyin_folder :: "env \<Rightarrow> bool \<Rightarrow> path \<Rightarrow> pystr \<Rightarrow> node \<Rightarrow> node" where
  "pinyin_folder env dry_run root dir_name fs =
     (if has_chinese dir_name then
        (let old_path = os_path_join root dir_name;
             new_name = convert_to_pinyin env dir_name
         in if new_name = [] then fs
            else if dry_run then fs
            else fst (safe_rename fs old_path (os_path_join root new_name)))
      else fs)"

definition rename_folders_to_pinyin :: "env \<Rightarrow> node \<Rightarrow> path \<Rightarrow> bool \<Rightarrow> node" where
  "rename_folders_to_pinyin env fs target_folder dry_run =
     (if \<not> os_path_exists fs target_folder then fs
      else
        let fs1 = remove_specific_folders fs target_folder dry_run;
            fs2 = fold (\<lambda>(root, dirs, files). fold (pinyin_folder env dry_run root) dirs)
                    (os_walk_bottomup fs1 target_folder) fs1
        in remove_short_audio_files env fs2 target_folder dry_run)"

text \<open>
  \<^verbatim>\<open>
  def rename_files_underscore_to_dash(target_folder, dry_run=False):
      try:
          for root, dirs, files in os.walk(target_folder, topdown=False):
              for file_name in files:
                  if '_' in file_name:
                      old_path = os.path.join(root, file_name)
                      new_name = file_name.replace('_', '-')
                      new_path = os.path.join(root, new_name)
                      if dry_run: ...
                      else: safe_rename(old_path, new_path)
              for dir_name in dirs:
                  [the same]
      except Exception as e: ...
  \<close>
\<close>

definition underscore_to_dash :: "bool \<Rightarrow> path \<Rightarrow> pystr \<Rightarrow> node \<Rightarrow> node" where
  "underscore_to_dash dry_run root name fs =
     (if 95 \<in> set name then
        (if dry_run then fs
         else fst (safe_rename fs (os_path_join root name)
                     (os_path_join root (replace [95] [45] name))))
      else fs)"

definition rename_files_underscore_to_dash :: "node \<Rightarrow> path \<Rightarrow> bool \<Rightarrow> node" where
  "rename_files_underscore_to_dash fs target_folder dry_run =
     fold (\<lambda>(root, dirs, files) fs'.
             fold (underscore_to_dash dry_run root) dirs
               (fold (underscore_to_dash dry_run root) files fs'))
       (os_walk_bottomup fs target_folder) fs"

text \<open>
  \<^verbatim>\<open>
  rename_folders_to_pinyin(args.target_folder, args.dry_run)
  rename_speaker_folders(args.target_folder, args.dry_run)
  rename_files_underscore_to_dash(args.target_folder, args.dry_run)
  \<close>
\<close>

definition main :: "env \<Rightarrow> node \<Rightarrow> path \<Rightarrow> bool \<Rightarrow> node" where
  "main env fs target_folder dry_run =
     (let fs1 = rename_folders_to_pinyin env fs target_folder dry_run;
          fs2 = rename_speaker_folders env fs1 target_folder dry_run
      in rename_files_underscore_to_dash fs2 target_folder dry_run)"

section \<open>What the statements speak of\<close>

text \<open>
  A name that is already clean in the sense of the specification: ASCII letters, digits
  and single spaces between tokens, no leading or trailing whitespace.
\<close>

fun no_double_space :: "pystr \<Rightarrow> bool" where
  "no_double_space (a # b # cs) = (\<not> (a = 32 \<and> b = 32) \<and> no_double_space (b # cs))"
| "no_double_space _ = True"

definition already_clean :: "pystr \<Rightarrow> bool" where
  "already_clean s \<longleftrightarrow>
     list_all (\<lambda>c. is_ascii_alnum c \<or> c = 32) s \<and>
     (s = [] \<or> (hd s \<noteq> 32 \<and> last s \<noteq> 32)) \<and> no_double_space s"

text \<open>
  The base name as the specification words it: the name without its trailing run of
  digits, and without the \<^verbatim>\<open>_\<close> or \<^verbatim>\<open>-\<close> before that run when one stands there.
\<close>

definition strip_numeric_suffix :: "(nat \<Rightarrow> bool) \<Rightarrow> pystr \<Rightarrow> pystr" where
  "strip_numeric_suffix d name =
     (let rest = rev (dropWhile d (rev name))
      in if rest \<noteq> [] \<and> (last rest = 95 \<or> last rest = 45) then butlast rest else rest)"







subsection \<open>A sample environment and a sample corpus\<close>

text \<open>
  Concrete inputs for the instances below. The collaborators are small tables over the
  content of a file: \<^verbatim>\<open>mono-long\<close> and \<^verbatim>\<open>mono-short\<close> are mono 44100 Hz WAV data of
  1.5 and 0.5 seconds, \<^verbatim>\<open>mp3-mono\<close> is mono 44100 Hz data of 1.5 seconds that only the
  decoder of \<^verbatim>\<open>pydub\<close> reads, \<^verbatim>\<open>stereo\<close> is two-channel 22050 Hz data, and anything
  else cannot be decoded. The transliteration returns its argument.
\<close>

definition demo_env :: env where
  "demo_env =
     \<lparr> is_decimal = (\<lambda>c. 48 \<le> c \<and> c \<le> 57),
       lazy_pinyin = (\<lambda>text. Some [text]),
       capitalize = (\<lambda>word. word),
       sf_read = (\<lambda>b. if b = ''mono-long'' \<or> b = ''mono-short'' then Some (1, 44100)
                       else if b = ''stereo'' then Some (2, 22050) else None),
       sf_convert = (\<lambda>b. Some ''mono-long''),
       from_file = (\<lambda>p b.
          if b = ''mono-long''
          then Some \<lparr>channels = 1, frame_rate = 44100, millis = 1500, pcm = b\<rparr>
          else if b = ''mono-short''
          then Some \<lparr>channels = 1, frame_rate = 44100, millis = 500, pcm = b\<rparr>
          else if b = ''mp3-mono''
          then Some \<lparr>channels = 1, frame_rate = 44100, millis = 1500, pcm = b\<rparr>
          else if b = ''stereo''
          then Some \<lparr>channels = 2, frame_rate = 22050, millis = 2000, pcm = b\<rparr>
          else None),
       set_channels = (\<lambda>a n. a\<lparr>channels := n\<rparr>),
       set_frame_rate = (\<lambda>a r. a\<lparr>frame_rate := r\<rparr>),
       export = (\<lambda>a. if millis a < 1000 then ''mono-short'' else ''mono-long'') \<rparr>"



section \<open>Evaluating concrete inputs\<close>

text \<open>
  The equations that the simplifier unfolds to run the program on a concrete tree, and
  the run of the pipeline on the sample corpus.
\<close>

lemmas run_defs = main_def rename_folders_to_pinyin_def rename_speaker_folders_def
  rename_files_underscore_to_dash_def remove_specific_folders_def remove_short_audio_files_def
  audio_files_def os_walk_def os_walk_bottomup_def underscore_to_dash_def pinyin_folder_def
  speaker_folder_def merge_folder_def move_item_def process_audio_file_def convert_audio_format_def
  convert_pydub_def convert_wav_def get_audio_duration_def decode_def read_bytes_def with_suffix_def
  path_suffix_def endswith_def lower_def safe_remove_folder_def convert_to_pinyin_def has_chinese_def
  AUDIO_EXTENSIONS_def FOLDERS_TO_REMOVE_def safe_rename_def free_path_def next_free.simps
  candidate_def os_path_splitext_def str_nat.simps shutil_move_def basename_def os_rename_def
  write_file_def shutil_rmtree_def os_remove_def os_listdir_def put_def delete_def put_entry_def
  os_path_isdir_def os_path_exists_def stat_def norm_def os_path_join_def base_name_def
  pattern_match_def digits_to_end_def clean_name_def split_ws_def is_space_def is_ascii_alnum_def
  py_def replace.simps demo_env_def


section \<open>The name sanitizer\<close>

lemma is_space_32: "is_space 32"
  by (simp add: is_space_def)

lemma alnum_not_space: "is_ascii_alnum c \<Longrightarrow> \<not> is_space c"
  by (auto simp: is_ascii_alnum_def is_space_def)

lemma split_scan_word:
  "list_all (\<lambda>c. \<not> is_space c) w \<Longrightarrow> split_scan cur (w @ r) = split_scan (cur @ w) r"
  by (induction w arbitrary: cur) auto

text \<open>Splitting what was joined gives the tokens back.\<close>

lemma split_scan_join:
  "list_all (\<lambda>w. w \<noteq> [] \<and> list_all (\<lambda>c. \<not> is_space c) w) ws \<Longrightarrow>
   split_scan [] (join_sp ws) = ws"
proof (induction ws rule: join_sp.induct)
  case 1
  then show ?case by simp
next
  case (2 w)
  then show ?case using split_scan_word [of w "[]" "[]"] by simp
next
  case (3 w v ws)
  then have "split_scan [] (w @ 32 # join_sp (v # ws)) = split_scan w (32 # join_sp (v # ws))"
    using split_scan_word [of w "[]" "32 # join_sp (v # ws)"] by simp
  with 3 show ?case by (simp add: is_space_32)
qed

lemma split_scan_tokens:
  "list_all (\<lambda>c. \<not> is_space c) cur \<Longrightarrow>
   list_all (\<lambda>w. w \<noteq> [] \<and> list_all (\<lambda>c. \<not> is_space c) w) (split_scan cur s)"
  by (induction cur s rule: split_scan.induct) auto

lemma split_scan_chars: "set (concat (split_scan cur s)) \<subseteq> set cur \<union> set s"
  by (induction cur s rule: split_scan.induct) auto

lemma join_sp_chars: "set (join_sp ws) \<subseteq> insert 32 (set (concat ws))"
  by (induction ws rule: join_sp.induct) auto

lemma clean_name_idem: "clean_name (clean_name s) = clean_name s"
proof -
  define keep where "keep = (\<lambda>c. is_ascii_alnum c \<or> is_space c)"
  define t where "t = filter keep s"
  define ws where "ws = split_scan [] t"
  have tok: "list_all (\<lambda>w. w \<noteq> [] \<and> list_all (\<lambda>c. \<not> is_space c) w) ws"
    unfolding ws_def by (rule split_scan_tokens) simp
  have a: "set (concat ws) \<subseteq> set t"
    unfolding ws_def using split_scan_chars [of "[]" t] by simp
  have b: "set (join_sp ws) \<subseteq> insert 32 (set (concat ws))"
    by (rule join_sp_chars)
  have kt: "\<And>c. c \<in> set t \<Longrightarrow> keep c"
    unfolding t_def by simp
  have "keep c" if "c \<in> set (join_sp ws)" for c
  proof -
    from that a b have "c = 32 \<or> c \<in> set t" by blast
    then show ?thesis
    proof
      assume "c = 32"
      then show ?thesis by (simp add: keep_def is_space_32)
    next
      assume "c \<in> set t"
      then show ?thesis by (rule kt)
    qed
  qed
  then have "filter keep (join_sp ws) = join_sp ws"
    by (simp add: filter_id_conv)
  moreover have "split_scan [] (join_sp ws) = ws"
    using tok by (rule split_scan_join)
  ultimately have "join_sp (split_scan [] (filter keep (join_sp ws))) = join_sp ws"
    by simp
  then show ?thesis
    by (simp add: clean_name_def split_ws_def ws_def t_def keep_def)
qed

lemma join_sp_Cons: "ts \<noteq> [] \<Longrightarrow> join_sp (w # ts) = w @ 32 # join_sp ts"
  by (cases ts) auto

lemma split_scan_nonempty: "cur \<noteq> [] \<Longrightarrow> split_scan cur s \<noteq> []"
  by (induction cur s rule: split_scan.induct) auto

lemma join_split_clean:
  "list_all (\<lambda>c. \<not> is_space c \<or> c = 32) s \<Longrightarrow> no_double_space s \<Longrightarrow>
   s = [] \<or> last s \<noteq> 32 \<Longrightarrow> cur \<noteq> [] \<or> s = [] \<or> hd s \<noteq> 32 \<Longrightarrow>
   join_sp (split_scan cur s) = cur @ s"
proof (induction cur s rule: split_scan.induct)
  case (1 cur)
  then show ?case by simp
next
  case (2 cur c cs)
  show ?case
  proof (cases "is_space c")
    case False
    have "no_double_space cs" using "2.prems"(2) by (cases cs) auto
    moreover have "cs = [] \<or> last cs \<noteq> 32" using "2.prems"(3) by auto
    ultimately have "join_sp (split_scan (cur @ [c]) cs) = (cur @ [c]) @ cs"
      using "2.IH"(3) [OF False] "2.prems"(1) by simp
    with False show ?thesis by simp
  next
    case True
    then have c: "c = 32" using "2.prems"(1) by simp
    then have cur: "cur \<noteq> []" using "2.prems"(4) by simp
    from c "2.prems"(3) obtain b bs where cs: "cs = b # bs" by (cases cs) auto
    with c "2.prems"(2) have b: "b \<noteq> 32" by simp
    with cs "2.prems"(1) have nb: "\<not> is_space b" by auto
    have nd: "no_double_space cs" using "2.prems"(2) cs by auto
    have l: "cs = [] \<or> last cs \<noteq> 32" using "2.prems"(3) cs by auto
    have "join_sp (split_scan [] cs) = [] @ cs"
      using "2.IH"(2) [OF True cur] "2.prems"(1) nd l cs b by simp
    moreover have "split_scan [] cs \<noteq> []"
      using cs nb split_scan_nonempty [of "[b]" bs] by simp
    ultimately show ?thesis using True cur c by (simp add: join_sp_Cons)
  qed
qed

lemma clean_name_fixed: "already_clean s \<Longrightarrow> clean_name s = s"
proof -
  assume a: "already_clean s"
  then have all: "list_all (\<lambda>c. is_ascii_alnum c \<or> c = 32) s"
    by (simp add: already_clean_def)
  then have "filter (\<lambda>c. is_ascii_alnum c \<or> is_space c) s = s"
    by (auto simp: filter_id_conv list_all_iff is_space_32)
  moreover have "list_all (\<lambda>c. \<not> is_space c \<or> c = 32) s"
    using all alnum_not_space by (auto simp: list_all_iff)
  ultimately show ?thesis
    using a join_split_clean [of s "[]"]
    by (auto simp: clean_name_def split_ws_def already_clean_def)
qed

text \<open>
  Claim C9. The name sanitizer is idempotent: for every string \<open>s\<close>, sanitizing twice
  gives what sanitizing once gives; and a name \<open>t\<close> that is already clean (ASCII
  letters, digits and single spaces between tokens, no whitespace at either end) comes
  back unchanged.
\<close>

theorem clean_name_idempotent:
  "clean_name (clean_name s) = clean_name s \<and> (already_clean t \<longrightarrow> clean_name t = t)"
  using clean_name_idem [of s] clean_name_fixed [of t] by blast

theorem clean_name_idempotent_witness:
  "clean_name (clean_name (py ''  Hu-Tao   (01) '')) = clean_name (py ''  Hu-Tao   (01) '') \<and>
   already_clean (py ''HuTao 01'') \<and> clean_name (py ''HuTao 01'') = py ''HuTao 01''"
proof -
  have c: "already_clean (py ''HuTao 01'')"
    by (simp add: already_clean_def py_def is_ascii_alnum_def)
  from clean_name_idempotent [of "py ''  Hu-Tao   (01) ''" "py ''HuTao 01''"] c
  show ?thesis by blast
qed

section \<open>The base name of a suffixed folder\<close>

lemma digits_to_end_butlast: "digits_to_end d t \<Longrightarrow> t \<noteq> [] \<and> list_all d (butlast t)"
  by (auto simp: digits_to_end_def list_all_iff dest: in_set_butlastD)

text \<open>The search skips every position at which the pattern does not match.\<close>

lemma pattern_search_skip:
  "\<forall>k < length pre. \<not> pattern_match d (drop k pre @ m) \<Longrightarrow> pattern_match d m \<Longrightarrow>
   pattern_search d (pre @ m) = Some (length pre)"
proof (induction pre)
  case Nil
  then show ?case by (cases m) (auto simp: pattern_match_def)
next
  case (Cons c pre)
  from Cons.prems(1) have "\<not> pattern_match d (drop 0 (c # pre) @ m)" by blast
  then have no: "\<not> pattern_match d (c # pre @ m)" by simp
  have "\<forall>k < length pre. \<not> pattern_match d (drop k pre @ m)"
  proof (intro allI impI)
    fix k assume "k < length pre"
    then have "Suc k < length (c # pre)" by simp
    with Cons.prems(1) have "\<not> pattern_match d (drop (Suc k) (c # pre) @ m)" by blast
    then show "\<not> pattern_match d (drop k pre @ m)" by simp
  qed
  with Cons.IH Cons.prems(2) have "pattern_search d (pre @ m) = Some (length pre)" by simp
  with no show ?case by simp
qed

lemma no_match_with_separator:
  assumes "c = 95 \<or> c = 45" "\<not> d c" "ds \<noteq> []"
  shows "\<not> pattern_match d (y # ys @ c # ds)"
proof -
  have a: "\<not> digits_to_end d (y # ys @ c # ds)"
  proof
    assume "digits_to_end d (y # ys @ c # ds)"
    then have "list_all d (butlast (y # ys @ c # ds))" by (blast dest: digits_to_end_butlast)
    then show False using assms(2,3) by (simp add: butlast_append)
  qed
  have b: "\<not> digits_to_end d (ys @ c # ds)"
  proof
    assume "digits_to_end d (ys @ c # ds)"
    then have "list_all d (butlast (ys @ c # ds))" by (blast dest: digits_to_end_butlast)
    then show False using assms(2,3) by (simp add: butlast_append)
  qed
  from a b show ?thesis by (simp add: pattern_match_def)
qed

lemma no_match_without_separator:
  assumes "\<not> d (last (y # ys))" "ys = [] \<longrightarrow> y \<noteq> 95 \<and> y \<noteq> 45" "ds \<noteq> []"
  shows "\<not> pattern_match d ((y # ys) @ ds)"
proof -
  have a: "\<not> digits_to_end d ((y # ys) @ ds)"
  proof
    assume "digits_to_end d ((y # ys) @ ds)"
    then have "list_all d (butlast ((y # ys) @ ds))" by (blast dest: digits_to_end_butlast)
    then have "list_all d (y # ys)" using assms(3) by (simp add: butlast_append)
    moreover have "last (y # ys) \<in> set (y # ys)" by (rule last_in_set) simp
    ultimately have "d (last (y # ys))" by (simp only: list_all_iff)
    with assms(1) show False by simp
  qed
  have b: "\<not> ((y = 95 \<or> y = 45) \<and> digits_to_end d (ys @ ds))"
  proof
    assume h: "(y = 95 \<or> y = 45) \<and> digits_to_end d (ys @ ds)"
    then have ys: "ys \<noteq> []" using assms(2) by auto
    from h have "list_all d (butlast (ys @ ds))" by (blast dest: digits_to_end_butlast)
    then have "list_all d ys" using assms(3) by (simp add: butlast_append)
    then have "d (last ys)" using ys by (simp add: list_all_iff)
    with assms(1) ys show False by simp
  qed
  from a b show ?thesis by (simp add: pattern_match_def)
qed

lemma pattern_search_suffix:
  assumes ds: "ds \<noteq> []" "list_all d ds"
    and nd: "\<not> d 95" "\<not> d 45"
    and sep: "sep = [] \<or> sep = [95] \<or> sep = [45]"
    and pre: "sep = [] \<longrightarrow> pre = [] \<or> (\<not> d (last pre) \<and> last pre \<noteq> 95 \<and> last pre \<noteq> 45)"
  shows "pattern_search d (pre @ sep @ ds) = Some (length pre)"
proof -
  have m: "pattern_match d (sep @ ds)"
  proof (cases "sep = []")
    case True
    with ds show ?thesis by (cases ds) (auto simp: pattern_match_def digits_to_end_def)
  next
    case False
    with sep ds show ?thesis by (auto simp: pattern_match_def digits_to_end_def)
  qed
  have "\<not> pattern_match d (drop k pre @ sep @ ds)" if k: "k < length pre" for k
  proof -
    from k obtain y ys where x: "drop k pre = y # ys" by (cases "drop k pre") auto
    from k have l: "last (y # ys) = last pre" using x by (metis last_drop)
    show ?thesis
    proof (cases "sep = []")
      case True
      with pre k have p: "\<not> d (last pre) \<and> last pre \<noteq> 95 \<and> last pre \<noteq> 45" by auto
      have "\<not> pattern_match d ((y # ys) @ ds)"
        using p l ds(1) by (intro no_match_without_separator) auto
      with True x show ?thesis by simp
    next
      case False
      then obtain c where c: "sep = [c]" "c = 95 \<or> c = 45" using sep by auto
      then have "\<not> d c" using nd by auto
      with c ds(1) have "\<not> pattern_match d (y # ys @ c # ds)"
        by (intro no_match_with_separator) auto
      with c x show ?thesis by simp
    qed
  qed
  then show ?thesis using m by (intro pattern_search_skip) auto
qed

text \<open>
  A name in three parts: \<open>ds\<close> is its trailing run of digits, the whole run,
  \<open>sep\<close> is the \<^verbatim>\<open>_\<close> or \<^verbatim>\<open>-\<close> just before the run, or nothing when no such
  character stands there, and \<open>pre\<close> is what comes before. The search finds the match
  at the end of \<open>pre\<close>.
\<close>

lemma base_name_of_parts:
  assumes "ds \<noteq> []" and "list_all d ds"
    and "\<not> d 95" and "\<not> d 45"
    and "sep = [] \<or> sep = [95] \<or> sep = [45]"
    and "sep = [] \<longrightarrow> pre = [] \<or> (\<not> d (last pre) \<and> last pre \<noteq> 95 \<and> last pre \<noteq> 45)"
  shows "base_name d (pre @ sep @ ds) = Some pre"
  using pattern_search_suffix [OF assms] by (simp add: base_name_def)

text \<open>
  Claim C5. For every directory name that ends with a digit, which are the names with
  one or more digits at their very end, the pattern matches and the base name that the
  suffix-removal pass computes is the name without its trailing run of digits and
  without the \<^verbatim>\<open>_\<close> or \<^verbatim>\<open>-\<close> before the run, if there is one; no other character
  changes. (The digit class contains neither \<^verbatim>\<open>_\<close> nor \<^verbatim>\<open>-\<close>.)
\<close>

theorem base_name_strips_suffix:
  assumes "name \<noteq> []" and "d (last name)" and "\<not> d 95" and "\<not> d 45"
  shows "base_name d name = Some (strip_numeric_suffix d name)"
proof -
  define ds where "ds = rev (takeWhile d (rev name))"
  define rest where "rest = rev (dropWhile d (rev name))"
  have "rev (takeWhile d (rev name) @ dropWhile d (rev name)) =
      rev (dropWhile d (rev name)) @ rev (takeWhile d (rev name))"
    by (rule rev_append)
  then have name: "name = rest @ ds"
    by (simp only: takeWhile_dropWhile_id rev_rev_ident ds_def rest_def)
  have "rev name \<noteq> []" "hd (rev name) = last name"
    using assms(1) by (simp_all add: hd_rev)
  then have "takeWhile d (rev name) \<noteq> []"
    using assms(2) by (simp add: takeWhile_eq_Nil_iff)
  then have ds1: "ds \<noteq> []" by (simp add: ds_def)
  have ds2: "list_all d ds"
    by (auto simp: ds_def list_all_iff dest: set_takeWhileD)
  have r: "rest = [] \<or> \<not> d (last rest)"
  proof (cases "dropWhile d (rev name) = []")
    case True
    then show ?thesis by (simp add: rest_def)
  next
    case False
    then have "\<not> d (hd (dropWhile d (rev name)))" by (rule hd_dropWhile)
    with False show ?thesis by (simp add: rest_def last_rev)
  qed
  have st: "strip_numeric_suffix d name =
      (if rest \<noteq> [] \<and> (last rest = 95 \<or> last rest = 45) then butlast rest else rest)"
    by (simp add: strip_numeric_suffix_def Let_def rest_def)
  show ?thesis
  proof (cases "rest \<noteq> [] \<and> (last rest = 95 \<or> last rest = 45)")
    case True
    then have "rest = butlast rest @ [last rest]" by simp
    with name have n: "name = butlast rest @ [last rest] @ ds" by simp
    have "base_name d (butlast rest @ [last rest] @ ds) = Some (butlast rest)"
      using ds1 ds2 assms(3,4) True by (intro base_name_of_parts) auto
    then have "base_name d name = Some (butlast rest)" by (simp only: n [symmetric])
    moreover have "strip_numeric_suffix d name = butlast rest" using True st by simp
    ultimately show ?thesis by simp
  next
    case False
    have "base_name d (rest @ [] @ ds) = Some rest"
      using ds1 ds2 assms(3,4) False r by (intro base_name_of_parts) auto
    then have "base_name d name = Some rest" using name by simp
    moreover have "strip_numeric_suffix d name = rest" using False st by auto
    ultimately show ?thesis by simp
  qed
qed

theorem base_name_strips_suffix_witness:
  "strip_numeric_suffix (\<lambda>c. 48 \<le> c \<and> c \<le> 57) (py ''Hu Tao_12'') = py ''Hu Tao'' \<and>
   base_name (\<lambda>c. 48 \<le> c \<and> c \<le> 57) (py ''Hu Tao_12'') = Some (py ''Hu Tao'') \<and>
   strip_numeric_suffix (\<lambda>c. 48 \<le> c \<and> c \<le> 57) (py ''Amber2'') = py ''Amber'' \<and>
   base_name (\<lambda>c. 48 \<le> c \<and> c \<le> 57) (py ''Amber2'') = Some (py ''Amber'')"
proof -
  have a: "strip_numeric_suffix (\<lambda>c. 48 \<le> c \<and> c \<le> 57) (py ''Hu Tao_12'') = py ''Hu Tao''"
    by (simp add: strip_numeric_suffix_def py_def)
  have b: "strip_numeric_suffix (\<lambda>c. 48 \<le> c \<and> c \<le> 57) (py ''Amber2'') = py ''Amber''"
    by (simp add: strip_numeric_suffix_def py_def)
  have "base_name (\<lambda>c. 48 \<le> c \<and> c \<le> 57) (py ''Hu Tao_12'') =
      Some (strip_numeric_suffix (\<lambda>c. 48 \<le> c \<and> c \<le> 57) (py ''Hu Tao_12''))"
    by (rule base_name_strips_suffix) (simp_all add: py_def)
  moreover have "base_name (\<lambda>c. 48 \<le> c \<and> c \<le> 57) (py ''Amber2'') =
      Some (strip_numeric_suffix (\<lambda>c. 48 \<le> c \<and> c \<le> 57) (py ''Amber2''))"
    by (rule base_name_strips_suffix) (simp_all add: py_def)
  ultimately show ?thesis using a b by simp
qed

text \<open>
  The pattern also matches a name whose digits are followed by one newline, and then
  the newline goes with the suffix.
\<close>

lemma base_name_newline:
  "base_name (\<lambda>c. 48 \<le> c \<and> c \<le> 57) (py ''A_1'' @ [10]) = Some (py ''A'')"
  by (simp add: base_name_def pattern_match_def digits_to_end_def py_def)

section \<open>Preview mode\<close>


















section \<open>Facts about paths and trees\<close>
























section \<open>Merging a suffixed folder\<close>








text \<open>
  The renaming of the other passes goes through \<^verbatim>\<open>safe_rename\<close>, whose loop ends at
  a path that does not exist.
\<close>

lemma next_free_is_free: "\<not> os_path_exists fs (next_free fs base_path counter)"
proof (induction fs base_path counter rule: next_free.induct)
  case (1 fs base_path counter)
  show ?case
  proof (cases "os_path_exists fs (candidate base_path counter)")
    case True
    with 1 show ?thesis by (simp add: next_free.simps [of fs base_path counter])
  next
    case False
    then show ?thesis by (simp add: next_free.simps [of fs base_path counter])
  qed
qed

lemma free_path_is_free: "\<not> os_path_exists fs (free_path fs new_path)"
  by (simp add: free_path_def next_free_is_free)

text \<open>
  Claim C7 fails on the code. The merge of the suffix-removal pass is entered whenever
  the base path exists, also when a file has that name. Then \<^verbatim>\<open>shutil.move\<close> renames
  each entry of the suffixed directory onto that file: the file \<^verbatim>\<open>A\<close> with the content
  \<^verbatim>\<open>notes\<close> is replaced, without any report, by the last entry moved.
\<close>

theorem merge_overwrites_file:
  "rename_speaker_folders demo_env
     (Dir [(py ''corpus'',
            Dir [(py ''A'', File ''notes''), (py ''A_1'', Dir [(py ''f'', File ''one'')])])])
     [py ''corpus''] False =
   Dir [(py ''corpus'', Dir [(py ''A'', File ''one'')])]"
  by (simp add: run_defs)

section \<open>The audio pass on single files\<close>

text \<open>
  Claim C1 fails on the code. A file that cannot be decoded gets the duration 0.0 from
  \<^verbatim>\<open>get_audio_duration\<close>, which is below the threshold, and outside preview mode the
  short-clip step deletes it, together with its transcript. Here neither reader decodes
  the content of \<^verbatim>\<open>a.wav\<close>; \<^verbatim>\<open>convert_audio_format\<close> leaves the file alone, and the
  removal follows.
\<close>

theorem undecodable_file_is_deleted:
  "decode demo_env
     (Dir [(py ''corpus'', Dir [(py ''a.wav'', File ''garbage''), (py ''a.lab'', File ''text'')])])
     [py ''corpus'', py ''a.wav''] = None \<and>
   process_audio_file demo_env
     (Dir [(py ''corpus'', Dir [(py ''a.wav'', File ''garbage''), (py ''a.lab'', File ''text'')])])
     ([py ''corpus'', py ''a.wav''], False) =
   (Dir [(py ''corpus'', Dir [])], [py ''corpus'', py ''a.wav''], True) \<and>
   remove_short_audio_files demo_env
     (Dir [(py ''corpus'', Dir [(py ''a.wav'', File ''garbage''), (py ''a.lab'', File ''text'')])])
     [py ''corpus''] False =
   Dir [(py ''corpus'', Dir [])]"
  by (simp add: run_defs)

text \<open>
  Claim C3 fails on the code. The transcript is looked for at
  \<^verbatim>\<open>file_path.replace('.wav', '.lab')\<close>, which is the path of the audio file itself
  when its extension is written \<^verbatim>\<open>.WAV\<close>. The clip of half a second is deleted, the
  second \<^verbatim>\<open>os.remove\<close> raises for the path just deleted, and the transcript
  \<^verbatim>\<open>A.lab\<close> stays.
\<close>

theorem uppercase_wav_keeps_transcript:
  "get_audio_duration demo_env
     (Dir [(py ''corpus'', Dir [(py ''A.WAV'', File ''mono-short''), (py ''A.lab'', File ''text'')])])
     [py ''corpus'', py ''A.WAV''] = 500 \<and>
   process_audio_file demo_env
     (Dir [(py ''corpus'', Dir [(py ''A.WAV'', File ''mono-short''), (py ''A.lab'', File ''text'')])])
     ([py ''corpus'', py ''A.WAV''], False) =
   (Dir [(py ''corpus'', Dir [(py ''A.lab'', File ''text'')])], [py ''corpus'', py ''A.WAV''], True) \<and>
   remove_short_audio_files demo_env
     (Dir [(py ''corpus'', Dir [(py ''A.WAV'', File ''mono-short''), (py ''A.lab'', File ''text'')])])
     [py ''corpus''] False =
   Dir [(py ''corpus'', Dir [(py ''A.lab'', File ''text'')])]"
  by (simp add: run_defs)

text \<open>The other half of the claim holds: a clip of one second or more is kept.\<close>

lemma long_clip_retained:
  assumes "convert_audio_format env fs file_path0 dry_run = (fs1, file_path, converted)"
    and "1000 \<le> get_audio_duration env fs1 file_path"
  shows "process_audio_file env fs (file_path0, dry_run) = (fs1, file_path, False)"
  using assms by (simp add: process_audio_file_def)

text \<open>
  With the extension in lower case the transcript goes with the clip, and a clip of
  1.5 seconds stays.
\<close>

lemma short_clip_and_transcript_removed:
  "process_audio_file demo_env
     (Dir [(py ''corpus'', Dir [(py ''a.wav'', File ''mono-short''), (py ''a.lab'', File ''text'')])])
     ([py ''corpus'', py ''a.wav''], False) =
   (Dir [(py ''corpus'', Dir [])], [py ''corpus'', py ''a.wav''], True) \<and>
   process_audio_file demo_env
     (Dir [(py ''corpus'', Dir [(py ''a.wav'', File ''mono-long''), (py ''a.lab'', File ''text'')])])
     ([py ''corpus'', py ''a.wav''], False) =
   (Dir [(py ''corpus'', Dir [(py ''a.wav'', File ''mono-long''), (py ''a.lab'', File ''text'')])],
    [py ''corpus'', py ''a.wav''], False)"
  by (simp add: run_defs)

subsection \<open>Files that are in the target format already\<close>






section \<open>Running the pipeline twice\<close>








end
